theory Spec2Isabelle
  imports Main
begin

section \<open>Settings records\<close>

text \<open>
  The settings object of the extension is
  \<^verbatim>\<open>{ visitedColor: string, enabled: boolean, siteSettings: { [hostname]: {enabled?, visitedColor?} } }\<close>.
  The effective settings computed for a tab are an object with the two fields
  \<^verbatim>\<open>visitedColor\<close> and \<^verbatim>\<open>enabled\<close> only, so the settings record is
  written as an extension of the effective one and both share the field names of the source.
  An optional field is an \<open>option\<close>; \<^verbatim>\<open>siteSettings\<close> itself may be missing.
  The fields carry the types of the data model (a flag is a boolean, a colour a string).

  The asynchronous methods are read sequentially: each \<^verbatim>\<open>await\<close> is finished before
  the next statement runs. A method that can reject returns a sum with the error on the
  left; a method that catches all its errors returns its plain result.
\<close>

record effective_settings =
  visitedColor :: string
  enabled :: bool

record site_entry =
  site_enabled :: "bool option"
  site_visitedColor :: "string option"

record settings = effective_settings +
  siteSettings :: "(string \<rightharpoonup> site_entry) option"

definition DEFAULT_SETTINGS :: settings where
  "DEFAULT_SETTINGS =
     \<lparr>visitedColor = ''#551a8b'', enabled = True, siteSettings = Some Map.empty\<rparr>"

section \<open>The browser as the extension sees it\<close>

datatype js_error = Error (message: string)

record URL =
  protocol :: string
  hostname :: string

record tab =
  tab_id :: nat
  tab_url :: "string option"

text \<open>A style sheet is the text handed to \<^verbatim>\<open>chrome.scripting.insertCSS\<close>.\<close>

type_synonym stylesheet = string

datatype sync_call = SyncGet | SyncSet settings | SyncClear

text \<open>
  The state of the host that the code reads and writes:
  \<^item> \<open>new_URL\<close>: the \<^verbatim>\<open>URL\<close> constructor, \<open>None\<close> where it throws;
  \<^item> \<open>open_tabs\<close>: the tabs \<^verbatim>\<open>chrome.tabs.query({})\<close> lists;
  \<^item> \<open>scriptable\<close>: whether \<^verbatim>\<open>chrome.scripting.insertCSS\<close> is accepted on a tab;
  \<^item> \<open>page_css\<close>: the style sheets inserted into each tab, oldest first
    (\<^verbatim>\<open>insertCSS\<close> adds a sheet; only \<^verbatim>\<open>chrome.scripting.removeCSS\<close>, which the
    source never calls, takes one away);
  \<^item> \<open>sync_settings\<close>: the value stored under the key \<^verbatim>\<open>'settings'\<close> in
    \<^verbatim>\<open>chrome.storage.sync\<close>;
  \<^item> \<open>sync_faults\<close>: the outcome of the coming storage calls, one entry per call
    (\<open>Some e\<close>: the call rejects with \<open>e\<close>); calls past the end of the list succeed;
  \<^item> \<open>sync_calls\<close>: the storage calls made so far, oldest first;
  \<^item> \<open>tab_messages\<close>: the \<^verbatim>\<open>updateSettings\<close> notifications sent to tabs.
\<close>

record browser =
  new_URL :: "string \<Rightarrow> URL option"
  open_tabs :: "tab list"
  scriptable :: "nat \<Rightarrow> bool"
  page_css :: "nat \<Rightarrow> stylesheet list"
  sync_settings :: "settings option"
  sync_faults :: "js_error option list"
  sync_calls :: "sync_call list"
  tab_messages :: "(nat \<times> settings) list"

text \<open>The service worker: its in-memory copy \<^verbatim>\<open>this.settings\<close> and the host.\<close>

record service =
  this_settings :: settings
  chrome :: browser

definition tabs_get :: "browser \<Rightarrow> nat \<Rightarrow> js_error + tab" where
  "tabs_get b tabId =
     (case find (\<lambda>t. tab_id t = tabId) (open_tabs b) of
        None \<Rightarrow> Inl (Error ''No tab with id'')
      | Some t \<Rightarrow> Inr t)"

text \<open>
  \<^verbatim>\<open>new URL(x)\<close>: an \<^verbatim>\<open>undefined\<close> argument is first converted to the string
  \<^verbatim>\<open>"undefined"\<close>; a string that is not an absolute URL throws a \<^verbatim>\<open>TypeError\<close>.
\<close>

definition construct_URL :: "browser \<Rightarrow> string option \<Rightarrow> js_error + URL" where
  "construct_URL b arg =
     (case new_URL b (case arg of None \<Rightarrow> ''undefined'' | Some x \<Rightarrow> x) of
        None \<Rightarrow> Inl (Error ''Invalid URL'')
      | Some u \<Rightarrow> Inr u)"

section \<open>Effective settings (service worker, \<^verbatim>\<open>getEffectiveSettings\<close>)\<close>

text \<open>\<^verbatim>\<open>this.settings.siteSettings?.[currentSite]\<close>: \<open>None\<close> is \<^verbatim>\<open>undefined\<close>.\<close>

definition site_override :: "settings \<Rightarrow> string \<Rightarrow> site_entry option" where
  "site_override st currentSite =
     (case siteSettings st of None \<Rightarrow> None | Some m \<Rightarrow> m currentSite)"

text \<open>The statements of the \<^verbatim>\<open>try\<close> block after \<^verbatim>\<open>currentSite\<close> is known.\<close>

definition resolve_site :: "settings \<Rightarrow> string \<Rightarrow> effective_settings" where
  "resolve_site st currentSite =
     (let entry = (case site_override st currentSite of
                     None \<Rightarrow> \<lparr>site_enabled = None, site_visitedColor = None\<rparr>
                   | Some e \<Rightarrow> e);
          siteEnabled = (site_enabled entry \<noteq> Some False);
          color = (case site_visitedColor entry of
                     Some c \<Rightarrow> c
                   | None \<Rightarrow> visitedColor st)
      in \<lparr>visitedColor = color, enabled = (enabled st \<and> siteEnabled)\<rparr>)"

definition getEffectiveSettings_try :: "nat \<Rightarrow> service \<Rightarrow> js_error + effective_settings" where
  "getEffectiveSettings_try tabId s =
     (case tabs_get (chrome s) tabId of
        Inl e \<Rightarrow> Inl e
      | Inr t \<Rightarrow>
          (case construct_URL (chrome s) (tab_url t) of
             Inl e \<Rightarrow> Inl e
           | Inr u \<Rightarrow> Inr (resolve_site (this_settings s) (hostname u))))"

text \<open>The whole method: the \<^verbatim>\<open>catch\<close> block answers with the global pair.\<close>

definition getEffectiveSettings :: "nat \<Rightarrow> service \<Rightarrow> js_error + effective_settings" where
  "getEffectiveSettings tabId s =
     (case getEffectiveSettings_try tabId s of
        Inr r \<Rightarrow> Inr r
      | Inl e \<Rightarrow>
          Inr \<lparr>visitedColor = visitedColor (this_settings s),
               enabled = enabled (this_settings s)\<rparr>)"

section \<open>Eligible sites and injection (service worker)\<close>

definition shouldInjectOnSite :: "browser \<Rightarrow> string option \<Rightarrow> bool" where
  "shouldInjectOnSite b arg =
     (case construct_URL b arg of
        Inl e \<Rightarrow> False
      | Inr urlObj \<Rightarrow>
          (if protocol urlObj = ''chrome:'' \<or>
              protocol urlObj = ''chrome-extension:'' \<or>
              protocol urlObj = ''moz-extension:'' \<or>
              protocol urlObj = ''edge:'' \<or>
              protocol urlObj = ''about:'' \<or>
              protocol urlObj = ''data:'' \<or>
              protocol urlObj = ''file:''
           then False
           else True))"

text \<open>
  A template literal, line by line: the lines are joined by line feeds, so the first
  (empty) entry stands for the line break after the opening back quote and the last for
  the indentation before the closing one.
\<close>

fun template :: "string list \<Rightarrow> string" where
  "template [] = []"
| "template [l] = l"
| "template (l # ls) = l @ CHR 0x0A # template ls"

text \<open>\<^verbatim>\<open>generateCSS(color)\<close>; the text pasted in is \<^verbatim>\<open>color || 'unset'\<close>.\<close>

definition generateCSS :: "string \<Rightarrow> stylesheet" where
  \<open>generateCSS color =
     template
      ['''',
       ''        /* Visited Links Marker CSS - Using Browser's Native :visited State */'',
       ''        :root {'',
       ''          --visited-link-color: '' @ (if color = [] then ''unset'' else color) @ '';'',
       ''        }'',
       '''',
       ''        /* High specificity CSS rules to override any website styles */'',
       ''        html body a:visited,'',
       ''        html body a:visited *,'',
       ''        html body [role="link"]:visited,'',
       ''        html body [role="link"]:visited * {'',
       ''          color: var(--visited-link-color) !important;'',
       ''        }'',
       '''',
       ''        /* Additional high-specificity rules for stubborn websites */'',
       ''        html body div a:visited,'',
       ''        html body div a:visited *,'',
       ''        html body section a:visited,'',
       ''        html body section a:visited *,'',
       ''        html body article a:visited,'',
       ''        html body article a:visited *,'',
       ''        html body main a:visited,'',
       ''        html body main a:visited *,'',
       ''        html body nav a:visited,'',
       ''        html body nav a:visited *,'',
       ''        html body header a:visited,'',
       ''        html body header a:visited *,'',
       ''        html body footer a:visited,'',
       ''        html body footer a:visited * {'',
       ''          color: var(--visited-link-color) !important;'',
       ''        }'',
       '''',
       ''        /* Handle common class-based links */'',
       ''        html body .link:visited,'',
       ''        html body .link:visited *,'',
       ''        html body .url:visited,'',
       ''        html body .url:visited *,'',
       ''        html body .external:visited,'',
       ''        html body .external:visited * {'',
       ''          color: var(--visited-link-color) !important;'',
       ''        }'',
       '''',
       ''        /* Handle deeply nested elements */'',
       ''        html body a:visited span,'',
       ''        html body a:visited div,'',
       ''        html body a:visited p,'',
       ''        html body a:visited h1,'',
       ''        html body a:visited h2,'',
       ''        html body a:visited h3,'',
       ''        html body a:visited h4,'',
       ''        html body a:visited h5,'',
       ''        html body a:visited h6,'',
       ''        html body a:visited strong,'',
       ''        html body a:visited em,'',
       ''        html body a:visited b,'',
       ''        html body a:visited i,'',
       ''        html body a:visited u {'',
       ''          color: var(--visited-link-color) !important;'',
       ''        }'',
       '''',
       ''        /* Override text decoration while preserving functionality */'',
       ''        html body a:visited {'',
       ''          color: var(--visited-link-color) !important;'',
       ''        }'',
       ''      '']\<close>

text \<open>The constant \<^verbatim>\<open>resetCSS\<close> of \<^verbatim>\<open>removeCSS\<close>.\<close>

definition resetCSS :: stylesheet where
  \<open>resetCSS =
     template
      ['''',
       ''          :root {'',
       ''            --visited-link-color: unset;'',
       ''          }'',
       ''          html body a:visited,'',
       ''          html body a:visited *,'',
       ''          html body [role="link"]:visited,'',
       ''          html body [role="link"]:visited * {'',
       ''            color: unset !important;'',
       ''          }'',
       ''        '']\<close>

text \<open>
  \<^verbatim>\<open>chrome.scripting.insertCSS({target: {tabId}, css})\<close>: the sheet is added to the
  page after the sheets inserted before; the call rejects on a page that cannot be scripted.
\<close>

definition scripting_insertCSS :: "browser \<Rightarrow> nat \<Rightarrow> stylesheet \<Rightarrow> js_error + browser" where
  "scripting_insertCSS b tabId css =
     (if scriptable b tabId
      then Inr (b\<lparr>page_css := (page_css b)(tabId := page_css b tabId @ [css])\<rparr>)
      else Inl (Error ''Cannot access contents of the page''))"

definition removeCSS :: "nat \<Rightarrow> service \<Rightarrow> service" where
  "removeCSS tabId s =
     (case scripting_insertCSS (chrome s) tabId resetCSS of
        Inl e \<Rightarrow> s
      | Inr b \<Rightarrow> s\<lparr>chrome := b\<rparr>)"

text \<open>\<^verbatim>\<open>tab.url\<close> as a condition: \<^verbatim>\<open>undefined\<close> and the empty string are falsy.\<close>

definition url_truthy :: "string option \<Rightarrow> bool" where
  "url_truthy x = (x \<noteq> None \<and> x \<noteq> Some [])"

definition injectCSS :: "nat \<Rightarrow> service \<Rightarrow> service" where
  "injectCSS tabId s =
     (case tabs_get (chrome s) tabId of
        Inl e \<Rightarrow> s
      | Inr t \<Rightarrow>
          if \<not> url_truthy (tab_url t) then s
          else if \<not> shouldInjectOnSite (chrome s) (tab_url t) then s
          else
            (case getEffectiveSettings tabId s of
               Inl e \<Rightarrow> s
             | Inr effectiveSettings \<Rightarrow>
                 if \<not> enabled effectiveSettings then removeCSS tabId s
                 else
                   (case scripting_insertCSS (chrome s) tabId
                           (generateCSS (visitedColor effectiveSettings)) of
                      Inl e \<Rightarrow> s
                    | Inr b \<Rightarrow> s\<lparr>chrome := b\<rparr>)))"

section \<open>Storage\<close>

definition sync_outcome :: "browser \<Rightarrow> js_error option" where
  "sync_outcome b = (case sync_faults b of [] \<Rightarrow> None | f # fs \<Rightarrow> f)"

definition sync_called :: "sync_call \<Rightarrow> browser \<Rightarrow> browser" where
  "sync_called c b = b\<lparr>sync_faults := tl (sync_faults b), sync_calls := sync_calls b @ [c]\<rparr>"

definition storage_sync_get :: "browser \<Rightarrow> (js_error + settings option) \<times> browser" where
  "storage_sync_get b =
     (case sync_outcome b of
        Some e \<Rightarrow> (Inl e, sync_called SyncGet b)
      | None \<Rightarrow> (Inr (sync_settings b), sync_called SyncGet b))"

definition storage_sync_set :: "settings \<Rightarrow> browser \<Rightarrow> (js_error + unit) \<times> browser" where
  "storage_sync_set v b =
     (case sync_outcome b of
        Some e \<Rightarrow> (Inl e, sync_called (SyncSet v) b)
      | None \<Rightarrow> (Inr (), (sync_called (SyncSet v) b)\<lparr>sync_settings := Some v\<rparr>))"

definition storage_sync_clear :: "browser \<Rightarrow> (js_error + unit) \<times> browser" where
  "storage_sync_clear b =
     (case sync_outcome b of
        Some e \<Rightarrow> (Inl e, sync_called SyncClear b)
      | None \<Rightarrow> (Inr (), (sync_called SyncClear b)\<lparr>sync_settings := None\<rparr>))"

text \<open>\<^verbatim>\<open>String.prototype.includes\<close>.\<close>

fun str_includes :: "string \<Rightarrow> string \<Rightarrow> bool" where
  "str_includes [] p = (p = [])"
| "str_includes (c # cs) p = (take (length p) (c # cs) = p \<or> str_includes cs p)"

subsection \<open>\<^verbatim>\<open>StorageManager\<close> (utilities/storage-manager.mjs)\<close>

text \<open>
  The module exports one object, \<^verbatim>\<open>DEFAULT_SETTINGS\<close>, and \<^verbatim>\<open>getSettings\<close>
  returns that very object (not a copy) when nothing is stored or the read fails. Whoever
  holds it and writes a field changes what every later reader of the object sees. An
  object that holds settings is therefore either the exported object, whose content is
  kept with the page that loaded the module, or an object of its own with its content.
\<close>

datatype settings_object = Exported | Fresh settings


definition StorageManager_setSettings :: "settings \<Rightarrow> browser \<Rightarrow> bool \<times> browser" where
  "StorageManager_setSettings v b =
     (case storage_sync_set v b of
        (Inr u, b1) \<Rightarrow> (True, b1)
      | (Inl e, b1) \<Rightarrow> (False, b1))"

subsection \<open>The service worker's own \<^verbatim>\<open>getSettings\<close> and \<^verbatim>\<open>setSettings\<close>\<close>

definition getSettings :: "service \<Rightarrow> settings \<times> service" where
  "getSettings s =
     (case storage_sync_get (chrome s) of
        (Inr (Some v), b1) \<Rightarrow> (v, s\<lparr>chrome := b1\<rparr>)
      | (Inr None, b1) \<Rightarrow> (DEFAULT_SETTINGS, s\<lparr>chrome := b1\<rparr>)
      | (Inl e, b1) \<Rightarrow> (DEFAULT_SETTINGS, s\<lparr>chrome := b1\<rparr>))"

definition setSettings :: "settings \<Rightarrow> service \<Rightarrow> bool \<times> service" where
  "setSettings v s =
     (case storage_sync_set v (chrome s) of
        (Inr u, b1) \<Rightarrow> (True, \<lparr>this_settings = v, chrome = b1\<rparr>)
      | (Inl e, b1) \<Rightarrow>
          if str_includes (message e) ''quota'' then
            (case storage_sync_clear b1 of
               (Inl retryError, b2) \<Rightarrow> (False, s\<lparr>chrome := b2\<rparr>)
             | (Inr u, b2) \<Rightarrow>
                 (case storage_sync_set v b2 of
                    (Inl retryError, b3) \<Rightarrow> (False, s\<lparr>chrome := b3\<rparr>)
                  | (Inr u', b3) \<Rightarrow> (True, \<lparr>this_settings = v, chrome = b3\<rparr>)))
          else (False, s\<lparr>chrome := b1\<rparr>))"

section \<open>Updating the settings (service worker)\<close>

text \<open>
  The argument of an \<^verbatim>\<open>updateSettings\<close> request is a partial or a full settings
  object: each field may be absent. \<^verbatim>\<open>{ ...this.settings, ...newSettings }\<close> takes every
  field that \<^verbatim>\<open>newSettings\<close> has from it and the others from \<^verbatim>\<open>this.settings\<close>.
\<close>

record partial_settings =
  new_visitedColor :: "string option"
  new_enabled :: "bool option"
  new_siteSettings :: "(string \<rightharpoonup> site_entry) option"

definition spread :: "settings \<Rightarrow> partial_settings \<Rightarrow> settings" where
  "spread st newSettings =
     \<lparr>visitedColor = (case new_visitedColor newSettings of None \<Rightarrow> visitedColor st | Some c \<Rightarrow> c),
      enabled = (case new_enabled newSettings of None \<Rightarrow> enabled st | Some b \<Rightarrow> b),
      siteSettings = (case new_siteSettings newSettings of
                        None \<Rightarrow> siteSettings st
                      | Some m \<Rightarrow> Some m)\<rparr>"

text \<open>A full settings object as the argument of a request.\<close>

definition as_partial :: "settings \<Rightarrow> partial_settings" where
  "as_partial st =
     \<lparr>new_visitedColor = Some (visitedColor st), new_enabled = Some (enabled st),
      new_siteSettings = siteSettings st\<rparr>"

text \<open>
  \<^verbatim>\<open>notifyAllTabs\<close> sends the message to every eligible tab and ignores a tab that does
  not answer; \<^verbatim>\<open>updateAllTabs\<close> injects into every eligible tab. The injections of
  different tabs touch different entries of \<open>page_css\<close>, so they are run one after the other.
\<close>

definition notifyAllTabs :: "settings \<Rightarrow> service \<Rightarrow> service" where
  "notifyAllTabs msg s =
     fold (\<lambda>t s'.
             if url_truthy (tab_url t) \<and> shouldInjectOnSite (chrome s') (tab_url t)
             then s'\<lparr>chrome := (chrome s')\<lparr>tab_messages :=
                                    tab_messages (chrome s') @ [(tab_id t, msg)]\<rparr>\<rparr>
             else s')
          (open_tabs (chrome s)) s"

definition updateAllTabs :: "service \<Rightarrow> service" where
  "updateAllTabs s =
     fold (\<lambda>t s'.
             if url_truthy (tab_url t) \<and> shouldInjectOnSite (chrome s') (tab_url t)
             then injectCSS (tab_id t) s'
             else s')
          (open_tabs (chrome s)) s"

text \<open>
  \<^verbatim>\<open>updateSettings(newSettings)\<close>. The value of \<^verbatim>\<open>await this.setSettings(...)\<close> is
  not read. None of the calls throws, so the \<^verbatim>\<open>catch\<close> block
  (\<^verbatim>\<open>return false\<close>) has no branch here.
\<close>

definition updateSettings :: "partial_settings \<Rightarrow> service \<Rightarrow> bool \<times> service" where
  "updateSettings newSettings s =
     (let s1 = s\<lparr>this_settings := spread (this_settings s) newSettings\<rparr>;
          s2 = snd (setSettings (this_settings s1) s1);
          s3 = notifyAllTabs (this_settings s2) s2;
          s4 = updateAllTabs s3
      in (True, s4))"

datatype request =
  GetSettings
| UpdateSettings partial_settings
| InjectCSS nat
| Ping
| Other string

record response =
  success :: bool
  data :: "settings option"
  error :: "string option"

text \<open>
  \<^verbatim>\<open>handleMessage\<close>: the answer passed to \<^verbatim>\<open>sendResponse\<close> and the new state. The
  value of \<^verbatim>\<open>await this.updateSettings(...)\<close> is not read; the \<^verbatim>\<open>catch\<close> block
  (\<^verbatim>\<open>success: false\<close> with the error's message) is entered by no call of the
  \<^verbatim>\<open>switch\<close>, since each of them catches its own errors.
\<close>

definition handleMessage :: "request \<Rightarrow> service \<Rightarrow> response \<times> service" where
  "handleMessage msg s =
     (case msg of
        GetSettings \<Rightarrow>
          (case getSettings s of
             (v, s1) \<Rightarrow> (\<lparr>success = True, data = Some v, error = None\<rparr>, s1))
      | UpdateSettings newSettings \<Rightarrow>
          (case updateSettings newSettings s of
             (r, s1) \<Rightarrow> (\<lparr>success = True, data = None, error = None\<rparr>, s1))
      | InjectCSS tabId \<Rightarrow>
          (\<lparr>success = True, data = None, error = None\<rparr>, injectCSS tabId s)
      | Ping \<Rightarrow> (\<lparr>success = True, data = None, error = None\<rparr>, s)
      | Other a \<Rightarrow>
          (\<lparr>success = False, data = None, error = Some ''Unknown action''\<rparr>, s))"

section \<open>The popup (\<^verbatim>\<open>PopupController\<close>)\<close>

subsection \<open>The hex colour test\<close>

text \<open>
  \<^verbatim>\<open>/^#([A-Fa-f0-9]{6}|[A-Fa-f0-9]{3})$/.test(hex)\<close>. The pattern is kept as a syntax
  tree; \<open>run r s\<close> lists what is left of \<open>s\<close> after each way of matching \<open>r\<close> at its
  start, and the anchored test asks for a way that leaves nothing.
\<close>

datatype regex =
  Lit char
| Class "(char \<times> char) list"
| Seq regex regex
| Alt regex regex
| Repeat nat regex

definition in_class :: "(char \<times> char) list \<Rightarrow> char \<Rightarrow> bool" where
  "in_class rs c =
     list_ex (\<lambda>r. (of_char (fst r) :: nat) \<le> of_char c \<and> (of_char c :: nat) \<le> of_char (snd r)) rs"

primrec run :: "regex \<Rightarrow> string \<Rightarrow> string list" where
  "run (Lit c) s = (case s of [] \<Rightarrow> [] | x # xs \<Rightarrow> if x = c then [xs] else [])"
| "run (Class rs) s = (case s of [] \<Rightarrow> [] | x # xs \<Rightarrow> if in_class rs x then [xs] else [])"
| "run (Seq a b) s = concat (map (run b) (run a s))"
| "run (Alt a b) s = run a s @ run b s"
| "run (Repeat n a) s = ((\<lambda>ss. concat (map (run a) ss)) ^^ n) [s]"

definition regex_test :: "regex \<Rightarrow> string \<Rightarrow> bool" where
  "regex_test r s = ([] \<in> set (run r s))"

definition hex_class :: regex where
  "hex_class = Class [(CHR ''A'', CHR ''F''), (CHR ''a'', CHR ''f''), (CHR ''0'', CHR ''9'')]"

definition isValidHexColor :: "string \<Rightarrow> bool" where
  "isValidHexColor hex =
     regex_test (Seq (Lit CHR ''#'') (Alt (Repeat 6 hex_class) (Repeat 3 hex_class))) hex"

subsection \<open>State and methods\<close>

text \<open>
  The popup holds the object \<^verbatim>\<open>this.settings\<close>, the content of the
  \<^verbatim>\<open>DEFAULT_SETTINGS\<close> object of the module it imported, the site of the active tab
  (\<open>None\<close> is \<^verbatim>\<open>null\<close>) and at most one armed debounce timer. It reaches the storage of
  the host directly through \<^verbatim>\<open>StorageManager\<close> and the service worker through
  \<^verbatim>\<open>chrome.runtime.sendMessage\<close>, which starts the worker if it is not running.
\<close>

record popup =
  this_object :: settings_object
  exported_DEFAULT_SETTINGS :: settings
  currentSite :: "string option"
  storageUpdateTimeout :: bool
  worker :: service

text \<open>What a reader finds in a settings object, and in \<^verbatim>\<open>this.settings\<close>.\<close>

definition content :: "popup \<Rightarrow> settings_object \<Rightarrow> settings" where
  "content p obj = (case obj of Exported \<Rightarrow> exported_DEFAULT_SETTINGS p | Fresh st \<Rightarrow> st)"

definition popup_settings :: "popup \<Rightarrow> settings" where
  "popup_settings p = content p (this_object p)"

text \<open>
  A write into \<^verbatim>\<open>this.settings\<close> (a field, or an entry below
  \<^verbatim>\<open>siteSettings\<close>) lands in the object that \<^verbatim>\<open>this.settings\<close> is.
\<close>

definition write_settings :: "settings \<Rightarrow> popup \<Rightarrow> popup" where
  "write_settings st p =
     (case this_object p of
        Exported \<Rightarrow> p\<lparr>exported_DEFAULT_SETTINGS := st\<rparr>
      | Fresh old \<Rightarrow> p\<lparr>this_object := Fresh st\<rparr>)"

text \<open>
  The constructor on a freshly loaded page (\<^verbatim>\<open>this.settings = { ...DEFAULT_SETTINGS }\<close>)
  and \<^verbatim>\<open>loadSettings\<close>, which makes \<^verbatim>\<open>this.settings\<close> the object that
  \<^verbatim>\<open>StorageManager.getSettings\<close> returns.
\<close>

definition PopupController :: "service \<Rightarrow> popup" where
  "PopupController w =
     \<lparr>this_object = Fresh DEFAULT_SETTINGS,
      exported_DEFAULT_SETTINGS = DEFAULT_SETTINGS,
      currentSite = None,
      storageUpdateTimeout = False,
      worker = w\<rparr>"


datatype setting_key = Key_enabled | Key_visitedColor

datatype assignment = Assign_enabled bool | Assign_visitedColor string

fun key_of :: "assignment \<Rightarrow> setting_key" where
  "key_of (Assign_enabled b) = Key_enabled"
| "key_of (Assign_visitedColor c) = Key_visitedColor"

fun assign_global :: "assignment \<Rightarrow> settings \<Rightarrow> settings" where
  "assign_global (Assign_enabled b) st = st\<lparr>enabled := b\<rparr>"
| "assign_global (Assign_visitedColor c) st = st\<lparr>visitedColor := c\<rparr>"

fun assign_site :: "assignment \<Rightarrow> site_entry \<Rightarrow> site_entry" where
  "assign_site (Assign_enabled b) e = e\<lparr>site_enabled := Some b\<rparr>"
| "assign_site (Assign_visitedColor c) e = e\<lparr>site_visitedColor := Some c\<rparr>"

fun delete_key :: "setting_key \<Rightarrow> site_entry \<Rightarrow> site_entry" where
  "delete_key Key_enabled e = e\<lparr>site_enabled := None\<rparr>"
| "delete_key Key_visitedColor e = e\<lparr>site_visitedColor := None\<rparr>"

definition getCurrentSite :: "popup \<Rightarrow> string" where
  "getCurrentSite p =
     (if currentSite p = Some ''local-file'' then ''local-file''
      else (case currentSite p of
              None \<Rightarrow> ''unknown''
            | Some c \<Rightarrow> if c = [] then ''unknown'' else c))"

definition notifyServiceWorker :: "popup \<Rightarrow> (js_error + unit) \<times> popup" where
  "notifyServiceWorker p =
     (case handleMessage (UpdateSettings (as_partial (popup_settings p))) (worker p) of
        (resp, w) \<Rightarrow>
          (if success resp then Inr ()
           else Inl (Error (''Service worker returned error: '' @
                            (case error resp of None \<Rightarrow> ''Unknown error'' | Some m \<Rightarrow> m))),
           p\<lparr>worker := w\<rparr>))"

text \<open>\<^verbatim>\<open>await StorageManager.setSettings(this.settings)\<close> in the popup; the result is not read.\<close>

definition store_popup_settings :: "popup \<Rightarrow> popup" where
  "store_popup_settings p =
     p\<lparr>worker := (worker p)\<lparr>chrome :=
          snd (StorageManager_setSettings (popup_settings p) (chrome (worker p)))\<rparr>\<rparr>"

definition saveSettings :: "setting_key \<Rightarrow> popup \<Rightarrow> popup" where
  "saveSettings key p =
     (let p0 = p\<lparr>storageUpdateTimeout := False\<rparr>
      in if key = Key_enabled
         then snd (notifyServiceWorker (store_popup_settings p0))
         else p0\<lparr>storageUpdateTimeout := True\<rparr>)"

text \<open>The callback of the debounce timer, 300 ms after the last colour change.\<close>

definition storageUpdateTimeout_fired :: "popup \<Rightarrow> popup" where
  "storageUpdateTimeout_fired p =
     (if storageUpdateTimeout p
      then snd (notifyServiceWorker (store_popup_settings (p\<lparr>storageUpdateTimeout := False\<rparr>)))
      else p)"

definition updateGlobalSetting :: "assignment \<Rightarrow> popup \<Rightarrow> popup" where
  "updateGlobalSetting a p =
     saveSettings (key_of a) (write_settings (assign_global a (popup_settings p)) p)"

definition updateSiteSetting :: "assignment \<Rightarrow> popup \<Rightarrow> popup" where
  "updateSiteSetting a p =
     (let site = getCurrentSite p;
          st = popup_settings p;
          m = (case siteSettings st of None \<Rightarrow> Map.empty | Some m \<Rightarrow> m);
          e = (case m site of
                 None \<Rightarrow> \<lparr>site_enabled = None, site_visitedColor = None\<rparr>
               | Some e \<Rightarrow> e)
      in saveSettings (key_of a)
           (write_settings (st\<lparr>siteSettings := Some (m(site \<mapsto> assign_site a e))\<rparr>) p))"

definition removeSiteSetting :: "setting_key \<Rightarrow> popup \<Rightarrow> popup" where
  "removeSiteSetting key p =
     (let site = getCurrentSite p; st = popup_settings p
      in case siteSettings st of
           None \<Rightarrow> p
         | Some m \<Rightarrow>
             (case m site of
                None \<Rightarrow> p
              | Some e \<Rightarrow>
                  snd (notifyServiceWorker
                         (store_popup_settings
                            (write_settings
                               (st\<lparr>siteSettings := Some (m(site \<mapsto> delete_key key e))\<rparr>) p)))))"

subsection \<open>Event listeners\<close>

text \<open>The \<^verbatim>\<open>input\<close> listeners of the two hex text fields, with the text typed.\<close>

definition globalColorHex_input :: "string \<Rightarrow> popup \<Rightarrow> popup" where
  "globalColorHex_input v p =
     (if isValidHexColor v then updateGlobalSetting (Assign_visitedColor v) p else p)"

definition siteColorHex_input :: "string \<Rightarrow> popup \<Rightarrow> popup" where
  "siteColorHex_input v p =
     (if isValidHexColor v then updateSiteSetting (Assign_visitedColor v) p else p)"

text \<open>The \<^verbatim>\<open>change\<close> listener of the "use custom color" toggle, with its new state.\<close>

definition useCustomColor_change :: "bool \<Rightarrow> popup \<Rightarrow> popup" where
  "useCustomColor_change checked p =
     (if checked
      then updateSiteSetting (Assign_visitedColor (visitedColor (popup_settings p))) p
      else removeSiteSetting Key_visitedColor p)"

section \<open>A sample host\<close>

text \<open>
  The values of \<^verbatim>\<open>new URL(x)\<close> on the two addresses the examples use. Every other
  string is taken as rejected, as the empty string is by the constructor.
\<close>

definition sample_URL :: "string \<Rightarrow> URL option" where
  "sample_URL x =
     (if x = ''https://example.com/page''
        then Some \<lparr>protocol = ''https:'', hostname = ''example.com''\<rparr>
      else if x = ''chrome://extensions/''
        then Some \<lparr>protocol = ''chrome:'', hostname = ''extensions''\<rparr>
      else None)"

definition sample_browser :: browser where
  "sample_browser =
     \<lparr>new_URL = sample_URL,
      open_tabs = [\<lparr>tab_id = 1, tab_url = Some ''https://example.com/page''\<rparr>,
                   \<lparr>tab_id = 2, tab_url = Some ''chrome://extensions/''\<rparr>,
                   \<lparr>tab_id = 3, tab_url = Some ''''\<rparr>],
      scriptable = (\<lambda>_. True),
      page_css = (\<lambda>_. []),
      sync_settings = None,
      sync_faults = [],
      sync_calls = [],
      tab_messages = []\<rparr>"

definition sample_entry :: site_entry where
  "sample_entry = \<lparr>site_enabled = Some False, site_visitedColor = Some ''#abcdef''\<rparr>"

definition sample_settings :: settings where
  "sample_settings =
     \<lparr>visitedColor = ''#123456'', enabled = True,
      siteSettings = Some [''example.com'' \<mapsto> sample_entry]\<rparr>"

definition service_with :: "settings \<Rightarrow> service" where
  "service_with st = \<lparr>this_settings = st, chrome = sample_browser\<rparr>"

definition settings_without_sites :: settings where
  "settings_without_sites =
     \<lparr>visitedColor = ''#123456'', enabled = True, siteSettings = None\<rparr>"

definition settings_color_only :: settings where
  "settings_color_only =
     \<lparr>visitedColor = ''#123456'', enabled = True,
      siteSettings =
        Some [''example.com'' \<mapsto> \<lparr>site_enabled = None, site_visitedColor = Some ''#abcdef''\<rparr>]\<rparr>"

definition settings_flag_only :: settings where
  "settings_flag_only =
     \<lparr>visitedColor = ''#123456'', enabled = True,
      siteSettings =
        Some [''example.com'' \<mapsto> \<lparr>site_enabled = Some False, site_visitedColor = None\<rparr>]\<rparr>"

definition settings_two_sites :: settings where
  "settings_two_sites =
     \<lparr>visitedColor = ''#123456'', enabled = True,
      siteSettings =
        Some [''example.com'' \<mapsto> sample_entry,
              ''other.org'' \<mapsto> \<lparr>site_enabled = Some True, site_visitedColor = Some ''#ff0000''\<rparr>]\<rparr>"

definition quota_error :: js_error where
  "quota_error = Error ''QUOTA_BYTES_PER_ITEM quota exceeded''"

definition other_error :: js_error where
  "other_error = Error ''The browser is shutting down.''"

definition browser_failing :: "js_error option list \<Rightarrow> browser" where
  "browser_failing fs = sample_browser\<lparr>sync_faults := fs\<rparr>"

definition sample_popup :: popup where
  "sample_popup =
     \<lparr>this_object = Fresh settings_color_only,
      exported_DEFAULT_SETTINGS = DEFAULT_SETTINGS,
      currentSite = Some ''example.com'',
      storageUpdateTimeout = False,
      worker = service_with settings_color_only\<rparr>"



section \<open>Notions used in the statements\<close>

text \<open>The hexadecimal digits.\<close>

definition hex_digits :: "char set" where
  "hex_digits = set ''0123456789abcdefABCDEF''"


text \<open>The outcome of the \<open>i\<close>-th coming storage call, counted from 0.\<close>

definition fault_at :: "browser \<Rightarrow> nat \<Rightarrow> js_error option" where
  "fault_at b i = (if i < length (sync_faults b) then sync_faults b ! i else None)"

text \<open>The storage calls made between the state \<open>b\<close> and the later state \<open>b'\<close>.\<close>

definition calls_since :: "browser \<Rightarrow> browser \<Rightarrow> sync_call list" where
  "calls_since b b' = drop (length (sync_calls b)) (sync_calls b')"

section \<open>Properties of the effective settings\<close>

lemma getEffectiveSettings_on_site:
  assumes "tabs_get (chrome s) tabId = Inr t"
    and "construct_URL (chrome s) (tab_url t) = Inr u"
  shows "getEffectiveSettings tabId s = Inr (resolve_site (this_settings s) (hostname u))"
  using assms by (simp add: getEffectiveSettings_def getEffectiveSettings_try_def)

lemma example_tab:
  "tabs_get (chrome (service_with st)) 1 =
     Inr \<lparr>tab_id = 1, tab_url = Some ''https://example.com/page''\<rparr>"
  by (simp add: tabs_get_def service_with_def sample_browser_def)

lemma example_url:
  "construct_URL (chrome (service_with st))
     (tab_url \<lparr>tab_id = 1, tab_url = Some ''https://example.com/page''\<rparr>) =
     Inr \<lparr>protocol = ''https:'', hostname = ''example.com''\<rparr>"
  by (simp add: construct_URL_def service_with_def sample_browser_def sample_URL_def)

text \<open>
  Claim C1. For a tab whose address the \<^verbatim>\<open>URL\<close> constructor accepts, the effective
  \<^verbatim>\<open>enabled\<close> is the conjunction of the global flag and the flag of the entry of the
  tab's site (true when the entry or its flag is absent), and the effective colour is the
  colour of that entry when it has one and the global colour otherwise. An entry with
  \<^verbatim>\<open>enabled === false\<close> gives \<open>False\<close> whatever the global flag is.
\<close>

theorem effective_settings_rule:
  assumes "tabs_get (chrome s) tabId = Inr t"
    and "construct_URL (chrome s) (tab_url t) = Inr u"
  shows "\<exists>r. getEffectiveSettings tabId s = Inr r \<and>
     enabled r =
       (enabled (this_settings s) \<and>
        (case site_override (this_settings s) (hostname u) of
           None \<Rightarrow> True
         | Some e \<Rightarrow> (case site_enabled e of None \<Rightarrow> True | Some b \<Rightarrow> b))) \<and>
     visitedColor r =
       (case site_override (this_settings s) (hostname u) of
          None \<Rightarrow> visitedColor (this_settings s)
        | Some e \<Rightarrow> (case site_visitedColor e of
                      None \<Rightarrow> visitedColor (this_settings s)
                    | Some c \<Rightarrow> c)) \<and>
     ((\<exists>e. site_override (this_settings s) (hostname u) = Some e \<and> site_enabled e = Some False)
        \<longrightarrow> enabled r = False)"
  unfolding getEffectiveSettings_on_site [OF assms]
  by (auto simp: resolve_site_def Let_def split: option.splits)

theorem effective_settings_rule_witness:
  "\<exists>r. getEffectiveSettings 1 (service_with sample_settings) = Inr r \<and>
     enabled r = False \<and> visitedColor r = ''#abcdef''"
proof -
  have o: "site_override (this_settings (service_with sample_settings)) ''example.com'' =
           Some sample_entry"
    by (simp add: site_override_def service_with_def sample_settings_def)
  from effective_settings_rule [OF example_tab example_url, of sample_settings]
  obtain r where "getEffectiveSettings 1 (service_with sample_settings) = Inr r"
    and "enabled r = (enabled (this_settings (service_with sample_settings)) \<and> False)"
    and "visitedColor r = ''#abcdef''"
    by (auto simp: o sample_entry_def)
  then show ?thesis by simp
qed

text \<open>
  Claim C5. \<^verbatim>\<open>getEffectiveSettings\<close> always returns a pair and never an error. Without
  a \<^verbatim>\<open>siteSettings\<close> mapping, or without an entry for the tab's site, the pair is the
  global one; an entry without \<^verbatim>\<open>enabled\<close> leaves the global flag, and an entry
  without \<^verbatim>\<open>visitedColor\<close> leaves the global colour.
\<close>

theorem effective_settings_total:
  "(\<exists>r. getEffectiveSettings tabId s = Inr r) \<and>
   (siteSettings (this_settings s) = None \<longrightarrow>
      getEffectiveSettings tabId s =
        Inr \<lparr>visitedColor = visitedColor (this_settings s), enabled = enabled (this_settings s)\<rparr>) \<and>
   (\<forall>t u. tabs_get (chrome s) tabId = Inr t \<and> construct_URL (chrome s) (tab_url t) = Inr u \<longrightarrow>
      (\<forall>m. siteSettings (this_settings s) = Some m \<and> m (hostname u) = None \<longrightarrow>
         getEffectiveSettings tabId s =
           Inr \<lparr>visitedColor = visitedColor (this_settings s), enabled = enabled (this_settings s)\<rparr>) \<and>
      (\<forall>m e r. siteSettings (this_settings s) = Some m \<and> m (hostname u) = Some e \<and>
           getEffectiveSettings tabId s = Inr r \<longrightarrow>
         (site_enabled e = None \<longrightarrow> enabled r = enabled (this_settings s)) \<and>
         (site_visitedColor e = None \<longrightarrow> visitedColor r = visitedColor (this_settings s))))"
  by (auto simp: getEffectiveSettings_def getEffectiveSettings_try_def resolve_site_def
      site_override_def Let_def split: sum.splits option.splits)

theorem effective_settings_total_witness:
  "getEffectiveSettings 1 (service_with settings_without_sites) =
     Inr \<lparr>visitedColor = ''#123456'', enabled = True\<rparr> \<and>
   getEffectiveSettings 1 (service_with DEFAULT_SETTINGS) =
     Inr \<lparr>visitedColor = ''#551a8b'', enabled = True\<rparr> \<and>
   (\<exists>r. getEffectiveSettings 1 (service_with settings_color_only) = Inr r \<and> enabled r = True) \<and>
   (\<exists>r. getEffectiveSettings 1 (service_with settings_flag_only) = Inr r \<and>
        visitedColor r = ''#123456'')"
proof -
  have a: "getEffectiveSettings 1 (service_with settings_without_sites) =
             Inr \<lparr>visitedColor = ''#123456'', enabled = True\<rparr>"
    using effective_settings_total [of 1 "service_with settings_without_sites"]
    by (simp add: service_with_def settings_without_sites_def)
  have b: "getEffectiveSettings 1 (service_with DEFAULT_SETTINGS) =
             Inr \<lparr>visitedColor = ''#551a8b'', enabled = True\<rparr>"
    using effective_settings_total [of 1 "service_with DEFAULT_SETTINGS"]
      example_tab [of DEFAULT_SETTINGS] example_url [of DEFAULT_SETTINGS]
    by (simp add: service_with_def DEFAULT_SETTINGS_def)
  have c: "\<exists>r. getEffectiveSettings 1 (service_with settings_color_only) = Inr r \<and>
             enabled r = True"
    using effective_settings_total [of 1 "service_with settings_color_only"]
      example_tab [of settings_color_only] example_url [of settings_color_only]
    by (auto simp add: service_with_def settings_color_only_def)
  have d: "\<exists>r. getEffectiveSettings 1 (service_with settings_flag_only) = Inr r \<and>
             visitedColor r = ''#123456''"
    using effective_settings_total [of 1 "service_with settings_flag_only"]
      example_tab [of settings_flag_only] example_url [of settings_flag_only]
    by (auto simp add: service_with_def settings_flag_only_def)
  from a b c d show ?thesis by blast
qed

text \<open>
  Claim C10. Two settings records with the same global flag, the same global colour and
  the same entry (or no entry in both) for the site of the tab give the same effective
  settings for that tab: the entries of other sites play no part.
\<close>

theorem other_sites_do_not_matter:
  assumes "enabled (this_settings s1) = enabled (this_settings s2)"
    and "visitedColor (this_settings s1) = visitedColor (this_settings s2)"
    and "chrome s1 = chrome s2"
    and "\<forall>t u. tabs_get (chrome s1) tabId = Inr t \<and>
                construct_URL (chrome s1) (tab_url t) = Inr u \<longrightarrow>
           site_override (this_settings s1) (hostname u) =
           site_override (this_settings s2) (hostname u)"
  shows "getEffectiveSettings tabId s1 = getEffectiveSettings tabId s2"
  using assms
  by (auto simp: getEffectiveSettings_def getEffectiveSettings_try_def resolve_site_def
      Let_def split: sum.splits option.splits)

theorem other_sites_do_not_matter_witness:
  "getEffectiveSettings 1 (service_with sample_settings) =
     getEffectiveSettings 1 (service_with settings_two_sites) \<and>
   siteSettings sample_settings \<noteq> siteSettings settings_two_sites"
proof -
  have 1: "enabled (this_settings (service_with sample_settings)) =
           enabled (this_settings (service_with settings_two_sites))"
    by (simp add: service_with_def settings_two_sites_def sample_settings_def)
  have 2: "visitedColor (this_settings (service_with sample_settings)) =
           visitedColor (this_settings (service_with settings_two_sites))"
    by (simp add: service_with_def settings_two_sites_def sample_settings_def)
  have 3: "chrome (service_with sample_settings) = chrome (service_with settings_two_sites)"
    by (simp add: service_with_def)
  have 4: "\<forall>t u. tabs_get (chrome (service_with sample_settings)) 1 = Inr t \<and>
             construct_URL (chrome (service_with sample_settings)) (tab_url t) = Inr u \<longrightarrow>
           site_override (this_settings (service_with sample_settings)) (hostname u) =
           site_override (this_settings (service_with settings_two_sites)) (hostname u)"
    using example_tab [of sample_settings] example_url [of sample_settings]
    by (auto simp: service_with_def settings_two_sites_def sample_settings_def site_override_def)
  have 5: "siteSettings sample_settings \<noteq> siteSettings settings_two_sites"
  proof
    assume "siteSettings sample_settings = siteSettings settings_two_sites"
    then have "[''example.com'' \<mapsto> sample_entry] ''other.org'' =
      [''example.com'' \<mapsto> sample_entry,
       ''other.org'' \<mapsto> \<lparr>site_enabled = Some True, site_visitedColor = Some ''#ff0000''\<rparr>]
        ''other.org''"
      by (simp add: sample_settings_def settings_two_sites_def)
    then show False by simp
  qed
  from other_sites_do_not_matter [OF 1 2 3 4] 5 show ?thesis by simp
qed

section \<open>The hex colour test and the default settings\<close>

lemma of_char_cases:
  fixes c :: char
  assumes "lo \<le> (of_char c :: nat)" "(of_char c :: nat) \<le> hi"
  shows "c \<in> char_of ` {lo..hi}"
proof -
  have "c = char_of (of_char c :: nat)" by simp
  with assms show ?thesis by (metis atLeastAtMost_iff imageI)
qed

lemma in_hex_class:
  "in_class [(CHR ''A'', CHR ''F''), (CHR ''a'', CHR ''f''), (CHR ''0'', CHR ''9'')] c
     \<longleftrightarrow> c \<in> hex_digits"
proof
  assume "in_class [(CHR ''A'', CHR ''F''), (CHR ''a'', CHR ''f''), (CHR ''0'', CHR ''9'')] c"
  then consider "65 \<le> (of_char c :: nat) \<and> (of_char c :: nat) \<le> 70"
    | "97 \<le> (of_char c :: nat) \<and> (of_char c :: nat) \<le> 102"
    | "48 \<le> (of_char c :: nat) \<and> (of_char c :: nat) \<le> 57"
    by (auto simp: in_class_def)
  then show "c \<in> hex_digits"
  proof cases
    case 1
    then have "c \<in> char_of ` {65..70::nat}" using of_char_cases by blast
    also have "{65..70::nat} = {65,66,67,68,69,70}" by (auto; arith)
    finally show ?thesis by (auto simp: hex_digits_def char_of_eq_iff take_bit_eq_mod)
  next
    case 2
    then have "c \<in> char_of ` {97..102::nat}" using of_char_cases by blast
    also have "{97..102::nat} = {97,98,99,100,101,102}" by (auto; arith)
    finally show ?thesis by (auto simp: hex_digits_def char_of_eq_iff take_bit_eq_mod)
  next
    case 3
    then have "c \<in> char_of ` {48..57::nat}" using of_char_cases by blast
    also have "{48..57::nat} = {48,49,50,51,52,53,54,55,56,57}" by (auto; arith)
    finally show ?thesis by (auto simp: hex_digits_def char_of_eq_iff take_bit_eq_mod)
  qed
next
  assume "c \<in> hex_digits"
  then show "in_class [(CHR ''A'', CHR ''F''), (CHR ''a'', CHR ''f''), (CHR ''0'', CHR ''9'')] c"
    by (auto simp: hex_digits_def in_class_def)
qed

lemma repeat_nil: "((\<lambda>ss. concat (map (run a) ss)) ^^ n) [] = []"
  by (induction n) simp_all

lemma run_repeat_class:
  "run (Repeat n (Class rs)) s =
     (if n \<le> length s \<and> list_all (in_class rs) (take n s) then [drop n s] else [])"
proof (induction n arbitrary: s)
  case 0
  then show ?case by simp
next
  case (Suc n)
  have step: "run (Repeat (Suc n) (Class rs)) s =
        ((\<lambda>ss. concat (map (run (Class rs)) ss)) ^^ n) (concat (map (run (Class rs)) [s]))"
    by (simp only: run.simps funpow_Suc_right o_apply)
  show ?case
  proof (cases s)
    case Nil
    then show ?thesis using step by (simp add: repeat_nil)
  next
    case (Cons x xs)
    show ?thesis
    proof (cases "in_class rs x")
      case True
      with Cons step have "run (Repeat (Suc n) (Class rs)) s = run (Repeat n (Class rs)) xs"
        by simp
      with Suc.IH [of xs] Cons True show ?thesis by simp
    next
      case False
      with Cons step show ?thesis by (simp add: repeat_nil)
    qed
  qed
qed

lemma hex_validator_iff:
  "isValidHexColor hex \<longleftrightarrow>
     (\<exists>ds. hex = CHR ''#'' # ds \<and> (length ds = 3 \<or> length ds = 6) \<and> set ds \<subseteq> hex_digits)"
proof (cases hex)
  case Nil
  then show ?thesis by (simp add: isValidHexColor_def regex_test_def)
next
  case (Cons x xs)
  have all: "list_all (in_class [(CHR ''A'', CHR ''F''), (CHR ''a'', CHR ''f''), (CHR ''0'', CHR ''9'')]) ys
      \<longleftrightarrow> set ys \<subseteq> hex_digits" for ys
    by (auto simp: list_all_iff in_hex_class)
  show ?thesis
    unfolding Cons
    by (auto simp: isValidHexColor_def regex_test_def hex_class_def
        run_repeat_class all simp del: run.simps(5))
qed

text \<open>
  Claim C9. \<^verbatim>\<open>isValidHexColor\<close> accepts exactly the strings made of \<^verbatim>\<open>#\<close> and
  then 3 or 6 hexadecimal digits. It accepts \<^verbatim>\<open>#fff\<close>, \<^verbatim>\<open>#ffffff\<close> and
  \<^verbatim>\<open>#A1B2C3\<close>; it rejects \<^verbatim>\<open>fff\<close>, \<^verbatim>\<open>#ff\<close>, \<^verbatim>\<open>#gggggg\<close> and the empty
  string. A text that it rejects, typed into the global or the site hex field, changes
  nothing: neither the popup's settings, nor the storage, nor the service worker.
\<close>

theorem hex_validator_exact:
  "(isValidHexColor hex \<longleftrightarrow>
     (\<exists>ds. hex = CHR ''#'' # ds \<and> (length ds = 3 \<or> length ds = 6) \<and> set ds \<subseteq> hex_digits)) \<and>
   isValidHexColor ''#fff'' \<and> isValidHexColor ''#ffffff'' \<and> isValidHexColor ''#A1B2C3'' \<and>
   \<not> isValidHexColor ''fff'' \<and> \<not> isValidHexColor ''#ff'' \<and> \<not> isValidHexColor ''#gggggg'' \<and>
   \<not> isValidHexColor [] \<and>
   (\<not> isValidHexColor hex \<longrightarrow>
      globalColorHex_input hex p = p \<and> siteColorHex_input hex p = p)"
proof -
  have "isValidHexColor ''#fff''" "isValidHexColor ''#ffffff''" "isValidHexColor ''#A1B2C3''"
    "\<not> isValidHexColor ''fff''" "\<not> isValidHexColor ''#ff''" "\<not> isValidHexColor ''#gggggg''"
    "\<not> isValidHexColor []"
    by (simp_all add: hex_validator_iff hex_digits_def)
  moreover have "\<not> isValidHexColor hex \<longrightarrow>
      globalColorHex_input hex p = p \<and> siteColorHex_input hex p = p"
    by (simp add: globalColorHex_input_def siteColorHex_input_def)
  ultimately show ?thesis using hex_validator_iff [of hex] by blast
qed

theorem hex_validator_exact_witness:
  "\<not> isValidHexColor ''#12345'' \<and>
   globalColorHex_input ''#12345'' sample_popup = sample_popup \<and>
   siteColorHex_input ''#12345'' sample_popup = sample_popup \<and>
   popup_settings (globalColorHex_input ''#1a2B3c'' sample_popup) =
     settings_color_only\<lparr>visitedColor := ''#1a2B3c''\<rparr>"
proof -
  have r: "\<not> isValidHexColor ''#12345''"
    using hex_validator_exact [of "''#12345''" sample_popup] by simp
  have a: "isValidHexColor ''#1a2B3c''"
    using hex_validator_exact [of "''#1a2B3c''" sample_popup] by (simp add: hex_digits_def)
  have w: "popup_settings (globalColorHex_input ''#1a2B3c'' sample_popup) =
     settings_color_only\<lparr>visitedColor := ''#1a2B3c''\<rparr>"
    using a by (simp add: globalColorHex_input_def updateGlobalSetting_def saveSettings_def
        write_settings_def popup_settings_def content_def sample_popup_def)
  from r w hex_validator_exact [of "''#12345''" sample_popup] show ?thesis by simp
qed

text \<open>
  With nothing stored, or with a failing read, the service worker's \<^verbatim>\<open>getSettings\<close>
  returns a copy of its defaults, and \<^verbatim>\<open>StorageManager.getSettings\<close> returns the
  exported object, which holds the defaults on a freshly loaded page.
\<close>

lemma getSettings_defaults:
  "(fault_at (chrome s) 0 = None \<and> sync_settings (chrome s) = None \<longrightarrow>
      fst (getSettings s) = DEFAULT_SETTINGS) \<and>
   (\<forall>e. fault_at (chrome s) 0 = Some e \<longrightarrow> fst (getSettings s) = DEFAULT_SETTINGS)"
  by (auto simp: getSettings_def storage_sync_get_def sync_outcome_def fault_at_def
      split: list.splits option.splits)


lemma defaults_on_fresh_page:
  "content (PopupController w) Exported =
     \<lparr>visitedColor = ''#551a8b'', enabled = True, siteSettings = Some Map.empty\<rparr>"
  by (simp add: content_def PopupController_def DEFAULT_SETTINGS_def)



section \<open>Writing the settings\<close>

lemma setSettings_first_ok:
  assumes "fault_at (chrome s) 0 = None"
  shows "fst (setSettings v s) = True \<and>
         calls_since (chrome s) (chrome (snd (setSettings v s))) = [SyncSet v]"
  using assms
  by (auto simp: setSettings_def storage_sync_set_def sync_outcome_def sync_called_def
      fault_at_def calls_since_def split: list.splits option.splits)

lemma setSettings_other_failure:
  assumes "fault_at (chrome s) 0 = Some e" and "\<not> str_includes (message e) ''quota''"
  shows "fst (setSettings v s) = False \<and>
         calls_since (chrome s) (chrome (snd (setSettings v s))) = [SyncSet v]"
  using assms
  by (auto simp: setSettings_def storage_sync_set_def sync_outcome_def sync_called_def
      fault_at_def calls_since_def split: list.splits option.splits)

lemma setSettings_quota_failure:
  assumes "fault_at (chrome s) 0 = Some e" and "str_includes (message e) ''quota''"
  shows "fst (setSettings v s) = (fault_at (chrome s) 1 = None \<and> fault_at (chrome s) 2 = None) \<and>
         calls_since (chrome s) (chrome (snd (setSettings v s))) =
           [SyncSet v, SyncClear] @ (if fault_at (chrome s) 1 = None then [SyncSet v] else [])"
proof -
  from assms(1) obtain fs where fs: "sync_faults (chrome s) = Some e # fs"
    by (cases "sync_faults (chrome s)") (auto simp: fault_at_def split: if_splits)
  show ?thesis
  proof (cases fs)
    case Nil
    with fs assms(2) show ?thesis
      by (simp add: setSettings_def storage_sync_set_def storage_sync_clear_def sync_outcome_def
          sync_called_def fault_at_def calls_since_def)
  next
    case (Cons f fs')
    show ?thesis
    proof (cases f)
      case (Some e2)
      with fs Cons assms(2) show ?thesis
        by (simp add: setSettings_def storage_sync_set_def storage_sync_clear_def
            sync_outcome_def sync_called_def fault_at_def calls_since_def)
    next
      case None
      with fs Cons assms(2) show ?thesis
        by (cases fs')
          (auto simp: setSettings_def storage_sync_set_def storage_sync_clear_def
            sync_outcome_def sync_called_def fault_at_def calls_since_def
            split: option.splits)
    qed
  qed
qed

lemma StorageManager_setSettings_once:
  "fst (StorageManager_setSettings v b) = (fault_at b 0 = None) \<and>
   calls_since b (snd (StorageManager_setSettings v b)) = [SyncSet v]"
  by (auto simp: StorageManager_setSettings_def storage_sync_set_def sync_outcome_def
      sync_called_def fault_at_def calls_since_def split: list.splits option.splits)

text \<open>
  Claim C3, as the code has it. In the service worker's \<^verbatim>\<open>setSettings\<close>, a first write
  that fails with an error whose message contains \<^verbatim>\<open>quota\<close> is followed by one
  \<^verbatim>\<open>clear\<close> and, when the \<^verbatim>\<open>clear\<close> succeeds, by one more write; the result is
  \<open>True\<close> exactly when both succeed. After any other failure nothing more is called and
  the result is \<open>False\<close>. \<^verbatim>\<open>StorageManager.setSettings\<close> makes its one write and
  returns \<open>False\<close> after every failure, a quota failure included. Both return a boolean in
  every case.
\<close>

theorem quota_retry_in_service_worker_only:
  "(\<forall>e. fault_at (chrome s) 0 = Some e \<and> str_includes (message e) ''quota'' \<longrightarrow>
      calls_since (chrome s) (chrome (snd (setSettings v s))) =
        [SyncSet v, SyncClear] @ (if fault_at (chrome s) 1 = None then [SyncSet v] else []) \<and>
      fst (setSettings v s) = (fault_at (chrome s) 1 = None \<and> fault_at (chrome s) 2 = None)) \<and>
   (\<forall>e. fault_at (chrome s) 0 = Some e \<and> \<not> str_includes (message e) ''quota'' \<longrightarrow>
      calls_since (chrome s) (chrome (snd (setSettings v s))) = [SyncSet v] \<and>
      fst (setSettings v s) = False) \<and>
   (\<forall>e. fault_at b 0 = Some e \<longrightarrow>
      calls_since b (snd (StorageManager_setSettings v b)) = [SyncSet v] \<and>
      fst (StorageManager_setSettings v b) = False)"
  using setSettings_quota_failure [of s _ v] setSettings_other_failure [of s _ v]
    StorageManager_setSettings_once [of v b]
  by auto

text \<open>
  Claim C3 as stated fails for \<^verbatim>\<open>StorageManager.setSettings\<close>: after a quota failure
  it returns \<open>False\<close> having made the one write only, with no \<^verbatim>\<open>clear\<close> and no
  second write.
\<close>

theorem StorageManager_setSettings_no_retry:
  "str_includes (message quota_error) ''quota'' \<and>
   fault_at (browser_failing [Some quota_error]) 0 = Some quota_error \<and>
   fst (StorageManager_setSettings sample_settings (browser_failing [Some quota_error])) = False \<and>
   sync_calls (snd (StorageManager_setSettings sample_settings (browser_failing [Some quota_error])))
     = [SyncSet sample_settings]"
  by (simp add: quota_error_def browser_failing_def sample_browser_def fault_at_def
      StorageManager_setSettings_def storage_sync_set_def sync_outcome_def sync_called_def)

theorem quota_retry_in_service_worker_only_witness:
  "fst (setSettings sample_settings
          (service_with DEFAULT_SETTINGS\<lparr>chrome := browser_failing [Some quota_error]\<rparr>)) = True \<and>
   sync_calls (chrome (snd (setSettings sample_settings
          (service_with DEFAULT_SETTINGS\<lparr>chrome := browser_failing [Some quota_error]\<rparr>)))) =
     [SyncSet sample_settings, SyncClear, SyncSet sample_settings] \<and>
   fst (setSettings sample_settings
          (service_with DEFAULT_SETTINGS\<lparr>chrome := browser_failing [Some quota_error, Some other_error]\<rparr>)) = False \<and>
   sync_calls (chrome (snd (setSettings sample_settings
          (service_with DEFAULT_SETTINGS\<lparr>chrome := browser_failing [Some quota_error, Some other_error]\<rparr>)))) =
     [SyncSet sample_settings, SyncClear] \<and>
   fst (setSettings sample_settings
          (service_with DEFAULT_SETTINGS\<lparr>chrome := browser_failing [Some other_error]\<rparr>)) = False \<and>
   sync_calls (chrome (snd (setSettings sample_settings
          (service_with DEFAULT_SETTINGS\<lparr>chrome := browser_failing [Some other_error]\<rparr>)))) =
     [SyncSet sample_settings] \<and>
   fst (StorageManager_setSettings sample_settings (browser_failing [Some other_error])) = False"
proof -
  let ?q = "service_with DEFAULT_SETTINGS\<lparr>chrome := browser_failing [Some quota_error]\<rparr>"
  let ?qo = "service_with DEFAULT_SETTINGS\<lparr>chrome := browser_failing [Some quota_error, Some other_error]\<rparr>"
  let ?o = "service_with DEFAULT_SETTINGS\<lparr>chrome := browser_failing [Some other_error]\<rparr>"
  have q: "str_includes (message quota_error) ''quota''"
    and o: "\<not> str_includes (message other_error) ''quota''"
    by (simp_all add: quota_error_def other_error_def)
  have f: "fault_at (chrome ?q) 0 = Some quota_error" "fault_at (chrome ?q) 1 = None"
    "fault_at (chrome ?q) 2 = None"
    "fault_at (chrome ?qo) 0 = Some quota_error" "fault_at (chrome ?qo) 1 = Some other_error"
    "fault_at (chrome ?o) 0 = Some other_error"
    "fault_at (browser_failing [Some other_error]) 0 = Some other_error"
    by (simp_all add: fault_at_def browser_failing_def)
  have c: "sync_calls (chrome ?q) = []" "sync_calls (chrome ?qo) = []" "sync_calls (chrome ?o) = []"
    by (simp_all add: browser_failing_def sample_browser_def)
  from quota_retry_in_service_worker_only [of ?q sample_settings "browser_failing [Some other_error]"]
    quota_retry_in_service_worker_only [of ?qo sample_settings "browser_failing [Some other_error]"]
    quota_retry_in_service_worker_only [of ?o sample_settings "browser_failing [Some other_error]"]
    q o f c
  show ?thesis
    by (simp add: calls_since_def del: One_nat_def)
qed

section \<open>Eligible addresses\<close>





section \<open>What the service worker and the popup change\<close>

text \<open>What each step leaves alone.\<close>

lemma removeCSS_frame:
  "\<exists>css. removeCSS tabId s = s\<lparr>chrome := (chrome s)\<lparr>page_css := css\<rparr>\<rparr>"
proof (cases "scriptable (chrome s) tabId")
  case True
  then show ?thesis by (auto simp: removeCSS_def scripting_insertCSS_def)
next
  case False
  then have "removeCSS tabId s = s\<lparr>chrome := (chrome s)\<lparr>page_css := page_css (chrome s)\<rparr>\<rparr>"
    by (simp add: removeCSS_def scripting_insertCSS_def)
  then show ?thesis by blast
qed

lemma injectCSS_cases:
  "injectCSS tabId s = s \<or> injectCSS tabId s = removeCSS tabId s \<or>
   injectCSS tabId s =
     s\<lparr>chrome := (chrome s)\<lparr>page_css := (page_css (chrome s))
          (tabId := page_css (chrome s) tabId @
             [generateCSS (visitedColor (projr (getEffectiveSettings tabId s)))])\<rparr>\<rparr>"
  by (simp add: injectCSS_def scripting_insertCSS_def split: sum.splits)

lemma injectCSS_frame:
  "\<exists>css. injectCSS tabId s = s\<lparr>chrome := (chrome s)\<lparr>page_css := css\<rparr>\<rparr>"
proof -
  have same: "s = s\<lparr>chrome := (chrome s)\<lparr>page_css := page_css (chrome s)\<rparr>\<rparr>" by simp
  from injectCSS_cases [of tabId s] consider (unchanged) "injectCSS tabId s = s"
    | (reset) "injectCSS tabId s = removeCSS tabId s"
    | (inserted) "injectCSS tabId s =
         s\<lparr>chrome := (chrome s)\<lparr>page_css := (page_css (chrome s))
              (tabId := page_css (chrome s) tabId @
                 [generateCSS (visitedColor (projr (getEffectiveSettings tabId s)))])\<rparr>\<rparr>"
    by blast
  then show ?thesis
  proof cases
    case unchanged
    with same show ?thesis by metis
  next
    case reset
    with removeCSS_frame show ?thesis by simp
  next
    case inserted
    then show ?thesis by blast
  qed
qed

lemma fold_inject_frame:
  "\<exists>css. fold (\<lambda>t s'. if url_truthy (tab_url t) \<and> shouldInjectOnSite (chrome s') (tab_url t)
                         then injectCSS (tab_id t) s' else s') ts s =
          s\<lparr>chrome := (chrome s)\<lparr>page_css := css\<rparr>\<rparr>"
proof (induction ts arbitrary: s)
  case Nil
  have "s = s\<lparr>chrome := (chrome s)\<lparr>page_css := page_css (chrome s)\<rparr>\<rparr>" by simp
  then show ?case by (metis fold_simps(1))
next
  case (Cons t ts)
  let ?f = "\<lambda>t s'. if url_truthy (tab_url t) \<and> shouldInjectOnSite (chrome s') (tab_url t)
                         then injectCSS (tab_id t) s' else s'"
  have "\<exists>c1. ?f t s = s\<lparr>chrome := (chrome s)\<lparr>page_css := c1\<rparr>\<rparr>"
  proof (cases "url_truthy (tab_url t) \<and> shouldInjectOnSite (chrome s) (tab_url t)")
    case True
    with injectCSS_frame [of "tab_id t" s] show ?thesis by simp
  next
    case False
    then have "?f t s = s" by auto
    then have "?f t s = s\<lparr>chrome := (chrome s)\<lparr>page_css := page_css (chrome s)\<rparr>\<rparr>"
      by simp
    then show ?thesis by blast
  qed
  then obtain c1 where c1: "?f t s = s\<lparr>chrome := (chrome s)\<lparr>page_css := c1\<rparr>\<rparr>" ..
  from Cons.IH [of "?f t s"] obtain c2 where
    "fold ?f ts (?f t s) = (?f t s)\<lparr>chrome := (chrome (?f t s))\<lparr>page_css := c2\<rparr>\<rparr>"
    by blast
  then have "fold ?f (t # ts) s = s\<lparr>chrome := (chrome s)\<lparr>page_css := c2\<rparr>\<rparr>"
    by (simp add: c1)
  then show ?case by blast
qed

lemma updateAllTabs_frame:
  "\<exists>css. updateAllTabs s = s\<lparr>chrome := (chrome s)\<lparr>page_css := css\<rparr>\<rparr>"
  unfolding updateAllTabs_def by (rule fold_inject_frame)

lemma fold_notify_frame:
  "\<exists>ms. fold (\<lambda>t s'. if url_truthy (tab_url t) \<and> shouldInjectOnSite (chrome s') (tab_url t)
                         then s'\<lparr>chrome := (chrome s')\<lparr>tab_messages :=
                                    tab_messages (chrome s') @ [(tab_id t, msg)]\<rparr>\<rparr>
                         else s') ts s =
          s\<lparr>chrome := (chrome s)\<lparr>tab_messages := ms\<rparr>\<rparr>"
proof (induction ts arbitrary: s)
  case Nil
  have "s = s\<lparr>chrome := (chrome s)\<lparr>tab_messages := tab_messages (chrome s)\<rparr>\<rparr>" by simp
  then show ?case by (metis fold_simps(1))
next
  case (Cons t ts)
  let ?f = "\<lambda>t s'. if url_truthy (tab_url t) \<and> shouldInjectOnSite (chrome s') (tab_url t)
                         then s'\<lparr>chrome := (chrome s')\<lparr>tab_messages :=
                                    tab_messages (chrome s') @ [(tab_id t, msg)]\<rparr>\<rparr>
                         else s'"
  have "\<exists>m1. ?f t s = s\<lparr>chrome := (chrome s)\<lparr>tab_messages := m1\<rparr>\<rparr>"
  proof (cases "url_truthy (tab_url t) \<and> shouldInjectOnSite (chrome s) (tab_url t)")
    case True
    then have "?f t s = s\<lparr>chrome := (chrome s)\<lparr>tab_messages :=
                 tab_messages (chrome s) @ [(tab_id t, msg)]\<rparr>\<rparr>"
      by simp
    then show ?thesis by blast
  next
    case False
    then have "?f t s = s" by auto
    then have "?f t s = s\<lparr>chrome := (chrome s)\<lparr>tab_messages := tab_messages (chrome s)\<rparr>\<rparr>"
      by simp
    then show ?thesis by blast
  qed
  then obtain m1 where m1: "?f t s = s\<lparr>chrome := (chrome s)\<lparr>tab_messages := m1\<rparr>\<rparr>" ..
  from Cons.IH [of "?f t s"] obtain m2 where
    "fold ?f ts (?f t s) = (?f t s)\<lparr>chrome := (chrome (?f t s))\<lparr>tab_messages := m2\<rparr>\<rparr>"
    by blast
  then have "fold ?f (t # ts) s = s\<lparr>chrome := (chrome s)\<lparr>tab_messages := m2\<rparr>\<rparr>"
    by (simp add: m1)
  then show ?case by blast
qed

lemma notifyAllTabs_frame:
  "\<exists>ms. notifyAllTabs msg s = s\<lparr>chrome := (chrome s)\<lparr>tab_messages := ms\<rparr>\<rparr>"
  unfolding notifyAllTabs_def by (rule fold_notify_frame)

text \<open>\<^verbatim>\<open>setSettings\<close> touches the storage fields only, and \<^verbatim>\<open>this.settings\<close>.\<close>

lemma setSettings_frame:
  "(this_settings (snd (setSettings v s)) = v \<or>
    this_settings (snd (setSettings v s)) = this_settings s) \<and>
   new_URL (chrome (snd (setSettings v s))) = new_URL (chrome s) \<and>
   open_tabs (chrome (snd (setSettings v s))) = open_tabs (chrome s)"
  by (auto simp: setSettings_def storage_sync_set_def storage_sync_clear_def sync_called_def
      split: option.splits prod.splits sum.splits)

lemma updateSettings_frame:
  "this_settings (snd (updateSettings newSettings s)) = spread (this_settings s) newSettings \<and>
   new_URL (chrome (snd (updateSettings newSettings s))) = new_URL (chrome s) \<and>
   open_tabs (chrome (snd (updateSettings newSettings s))) = open_tabs (chrome s)"
proof -
  let ?s1 = "s\<lparr>this_settings := spread (this_settings s) newSettings\<rparr>"
  let ?s2 = "snd (setSettings (this_settings ?s1) ?s1)"
  let ?s3 = "notifyAllTabs (this_settings ?s2) ?s2"
  have 2: "this_settings ?s2 = spread (this_settings s) newSettings"
    "new_URL (chrome ?s2) = new_URL (chrome s)" "open_tabs (chrome ?s2) = open_tabs (chrome s)"
    using setSettings_frame [of "this_settings ?s1" ?s1] by auto
  obtain ms where 3: "?s3 = ?s2\<lparr>chrome := (chrome ?s2)\<lparr>tab_messages := ms\<rparr>\<rparr>"
    using notifyAllTabs_frame by blast
  obtain css where 4: "updateAllTabs ?s3 = ?s3\<lparr>chrome := (chrome ?s3)\<lparr>page_css := css\<rparr>\<rparr>"
    using updateAllTabs_frame by blast
  have "snd (updateSettings newSettings s) = updateAllTabs ?s3"
    by (simp add: updateSettings_def Let_def)
  with 4 have "snd (updateSettings newSettings s) = ?s3\<lparr>chrome := (chrome ?s3)\<lparr>page_css := css\<rparr>\<rparr>"
    by simp
  with 3 have "snd (updateSettings newSettings s) =
      ?s2\<lparr>chrome := (chrome ?s2)\<lparr>tab_messages := ms, page_css := css\<rparr>\<rparr>"
    by simp
  with 2 show ?thesis by simp
qed

lemma spread_full:
  "siteSettings st \<noteq> None \<Longrightarrow> spread old (as_partial st) = st"
  by (auto simp: spread_def as_partial_def)

lemma popup_settings_worker:
  "popup_settings (p\<lparr>worker := w\<rparr>) = popup_settings p"
  by (simp add: popup_settings_def content_def split: settings_object.splits)

lemma write_settings_frame:
  "popup_settings (write_settings st p) = st \<and>
   worker (write_settings st p) = worker p \<and>
   currentSite (write_settings st p) = currentSite p"
  by (simp add: write_settings_def popup_settings_def content_def split: settings_object.splits)

lemma notifyServiceWorker_frame:
  "popup_settings (snd (notifyServiceWorker p)) = popup_settings p \<and>
   this_settings (worker (snd (notifyServiceWorker p))) =
     spread (this_settings (worker p)) (as_partial (popup_settings p)) \<and>
   new_URL (chrome (worker (snd (notifyServiceWorker p)))) = new_URL (chrome (worker p)) \<and>
   open_tabs (chrome (worker (snd (notifyServiceWorker p)))) = open_tabs (chrome (worker p))"
proof -
  obtain r w where u: "updateSettings (as_partial (popup_settings p)) (worker p) = (r, w)"
    by (cases "updateSettings (as_partial (popup_settings p)) (worker p)")
  then have "snd (notifyServiceWorker p) = p\<lparr>worker := w\<rparr>"
    by (simp add: notifyServiceWorker_def handleMessage_def)
  with updateSettings_frame [of "as_partial (popup_settings p)" "worker p"] u
  show ?thesis by (simp add: popup_settings_worker)
qed

lemma store_popup_settings_frame:
  "popup_settings (store_popup_settings p) = popup_settings p \<and>
   this_settings (worker (store_popup_settings p)) = this_settings (worker p) \<and>
   new_URL (chrome (worker (store_popup_settings p))) = new_URL (chrome (worker p)) \<and>
   open_tabs (chrome (worker (store_popup_settings p))) = open_tabs (chrome (worker p))"
  by (auto simp: store_popup_settings_def StorageManager_setSettings_def storage_sync_set_def
      sync_called_def popup_settings_worker split: option.splits prod.splits sum.splits)

lemma removeSiteSetting_result:
  assumes "siteSettings (popup_settings p) = Some m" and "m (getCurrentSite p) = Some e"
  shows "popup_settings (removeSiteSetting key p) =
           (popup_settings p)\<lparr>siteSettings := Some (m(getCurrentSite p \<mapsto> delete_key key e))\<rparr> \<and>
         this_settings (worker (removeSiteSetting key p)) = popup_settings (removeSiteSetting key p) \<and>
         new_URL (chrome (worker (removeSiteSetting key p))) = new_URL (chrome (worker p)) \<and>
         open_tabs (chrome (worker (removeSiteSetting key p))) = open_tabs (chrome (worker p))"
proof -
  let ?st = "(popup_settings p)\<lparr>siteSettings := Some (m(getCurrentSite p \<mapsto> delete_key key e))\<rparr>"
  let ?p1 = "store_popup_settings (write_settings ?st p)"
  have r: "removeSiteSetting key p = snd (notifyServiceWorker ?p1)"
    using assms by (simp add: removeSiteSetting_def Let_def)
  have 1: "popup_settings ?p1 = ?st" "this_settings (worker ?p1) = this_settings (worker p)"
    "new_URL (chrome (worker ?p1)) = new_URL (chrome (worker p))"
    "open_tabs (chrome (worker ?p1)) = open_tabs (chrome (worker p))"
    using store_popup_settings_frame [of "write_settings ?st p"] write_settings_frame [of ?st p]
    by simp_all
  have "spread (this_settings (worker p)) (as_partial ?st) = ?st"
    by (rule spread_full) simp
  with notifyServiceWorker_frame [of ?p1] 1 r show ?thesis by simp
qed

text \<open>
  Claim C8. For a site that has an entry, switching the "use custom color" toggle off
  deletes \<^verbatim>\<open>visitedColor\<close> from the entry and writes nothing in its place; the rest of
  the popup's settings stays, the service worker takes the same record over, and the
  effective colour of every tab on that site is then the global colour.
\<close>

theorem custom_color_toggle_off:
  assumes "siteSettings (popup_settings p) = Some m"
    and "m (getCurrentSite p) = Some e"
  shows "siteSettings (popup_settings (useCustomColor_change False p)) =
           Some (m(getCurrentSite p \<mapsto> e\<lparr>site_visitedColor := None\<rparr>)) \<and>
         visitedColor (popup_settings (useCustomColor_change False p)) =
           visitedColor (popup_settings p) \<and>
         enabled (popup_settings (useCustomColor_change False p)) = enabled (popup_settings p) \<and>
         this_settings (worker (useCustomColor_change False p)) =
           popup_settings (useCustomColor_change False p) \<and>
         (\<forall>tabId t u.
            tabs_get (chrome (worker (useCustomColor_change False p))) tabId = Inr t \<and>
            construct_URL (chrome (worker (useCustomColor_change False p))) (tab_url t) = Inr u \<and>
            hostname u = getCurrentSite p \<longrightarrow>
            (\<exists>r. getEffectiveSettings tabId (worker (useCustomColor_change False p)) = Inr r \<and>
                 visitedColor r = visitedColor (popup_settings p)))"
proof -
  let ?p' = "useCustomColor_change False p"
  have p': "?p' = removeSiteSetting Key_visitedColor p"
    by (simp add: useCustomColor_change_def)
  note r = removeSiteSetting_result [OF assms, of Key_visitedColor]
  have st: "popup_settings ?p' =
      (popup_settings p)\<lparr>siteSettings := Some (m(getCurrentSite p \<mapsto> e\<lparr>site_visitedColor := None\<rparr>))\<rparr>"
    using r p' by simp
  have w: "this_settings (worker ?p') = popup_settings ?p'"
    using r p' by simp
  have eff: "\<exists>r. getEffectiveSettings tabId (worker ?p') = Inr r \<and>
                 visitedColor r = visitedColor (popup_settings p)"
    if "tabs_get (chrome (worker ?p')) tabId = Inr t"
      and "construct_URL (chrome (worker ?p')) (tab_url t) = Inr u"
      and "hostname u = getCurrentSite p" for tabId t u
  proof -
    have "getEffectiveSettings tabId (worker ?p') =
            Inr (resolve_site (this_settings (worker ?p')) (hostname u))"
      using that(1,2) by (rule getEffectiveSettings_on_site)
    moreover have "visitedColor (resolve_site (popup_settings ?p') (getCurrentSite p)) =
            visitedColor (popup_settings p)"
      by (simp add: st resolve_site_def site_override_def)
    ultimately show ?thesis using w that(3) by simp
  qed
  from st w eff show ?thesis by auto
qed

theorem custom_color_toggle_off_witness:
  "siteSettings (popup_settings (useCustomColor_change False sample_popup)) =
     Some [''example.com'' \<mapsto> \<lparr>site_enabled = None, site_visitedColor = None\<rparr>] \<and>
   (\<exists>r. getEffectiveSettings 1 (worker (useCustomColor_change False sample_popup)) = Inr r \<and>
        visitedColor r = ''#123456'')"
proof -
  let ?m = "[''example.com'' \<mapsto> \<lparr>site_enabled = None, site_visitedColor = Some ''#abcdef''\<rparr>]"
  let ?e = "\<lparr>site_enabled = None, site_visitedColor = Some ''#abcdef''\<rparr>"
  let ?p' = "useCustomColor_change False sample_popup"
  have site: "getCurrentSite sample_popup = ''example.com''"
    by (simp add: getCurrentSite_def sample_popup_def)
  have 1: "siteSettings (popup_settings sample_popup) = Some ?m"
    by (simp add: sample_popup_def settings_color_only_def popup_settings_def content_def)
  have 2: "?m (getCurrentSite sample_popup) = Some ?e"
    by (simp add: site)
  note main = custom_color_toggle_off [OF 1 2]
  have frame: "new_URL (chrome (worker ?p')) = sample_URL"
    "open_tabs (chrome (worker ?p')) = open_tabs sample_browser"
    using removeSiteSetting_result [OF 1 2, of Key_visitedColor]
    by (simp_all add: useCustomColor_change_def sample_popup_def service_with_def
        sample_browser_def)
  have t: "tabs_get (chrome (worker ?p')) 1 =
             Inr \<lparr>tab_id = 1, tab_url = Some ''https://example.com/page''\<rparr>"
    by (simp add: tabs_get_def frame sample_browser_def)
  have u: "construct_URL (chrome (worker ?p'))
             (tab_url \<lparr>tab_id = 1, tab_url = Some ''https://example.com/page''\<rparr>) =
           Inr \<lparr>protocol = ''https:'', hostname = ''example.com''\<rparr>"
    by (simp add: construct_URL_def frame sample_URL_def)
  from main t u site
  have "\<exists>r. getEffectiveSettings 1 (worker ?p') = Inr r \<and>
            visitedColor r = visitedColor (popup_settings sample_popup)"
    by (metis URL.select_convs(2))
  moreover have "visitedColor (popup_settings sample_popup) = ''#123456''"
    by (simp add: sample_popup_def settings_color_only_def popup_settings_def content_def)
  moreover have "?m(''example.com'' \<mapsto> ?e\<lparr>site_visitedColor := None\<rparr>) =
      [''example.com'' \<mapsto> \<lparr>site_enabled = None, site_visitedColor = None\<rparr>]"
    by simp
  with main [THEN conjunct1]
  have "siteSettings (popup_settings ?p') =
     Some [''example.com'' \<mapsto> \<lparr>site_enabled = None, site_visitedColor = None\<rparr>]"
    by (simp only: site)
  ultimately show ?thesis by simp
qed

lemma injectCSS_appends:
  assumes "tabs_get (chrome s) tabId = Inr t"
    and "url_truthy (tab_url t)"
    and "shouldInjectOnSite (chrome s) (tab_url t)"
    and "getEffectiveSettings tabId s = Inr eff"
    and "scriptable (chrome s) tabId"
  shows "page_css (chrome (injectCSS tabId s)) tabId =
           page_css (chrome s) tabId @
             [if enabled eff then generateCSS (visitedColor eff) else resetCSS]"
  using assms
  by (simp add: injectCSS_def removeCSS_def scripting_insertCSS_def)

lemma update_always_reports_success:
  "fst (handleMessage (UpdateSettings newSettings) s) =
     \<lparr>success = True, data = None, error = None\<rparr>"
  by (simp add: handleMessage_def split: prod.splits)

lemma updateSettings_storage:
  "sync_settings (chrome (snd (updateSettings newSettings s))) =
     sync_settings (chrome (snd (setSettings (spread (this_settings s) newSettings)
        (s\<lparr>this_settings := spread (this_settings s) newSettings\<rparr>))))"
proof -
  let ?s1 = "s\<lparr>this_settings := spread (this_settings s) newSettings\<rparr>"
  let ?s2 = "snd (setSettings (this_settings ?s1) ?s1)"
  let ?s3 = "notifyAllTabs (this_settings ?s2) ?s2"
  obtain ms where 3: "?s3 = ?s2\<lparr>chrome := (chrome ?s2)\<lparr>tab_messages := ms\<rparr>\<rparr>"
    using notifyAllTabs_frame by blast
  obtain css where 4: "updateAllTabs ?s3 = ?s3\<lparr>chrome := (chrome ?s3)\<lparr>page_css := css\<rparr>\<rparr>"
    using updateAllTabs_frame by blast
  have "snd (updateSettings newSettings s) = updateAllTabs ?s3"
    by (simp add: updateSettings_def Let_def)
  with 4 have "snd (updateSettings newSettings s) = ?s3\<lparr>chrome := (chrome ?s3)\<lparr>page_css := css\<rparr>\<rparr>"
    by simp
  with 3 have "snd (updateSettings newSettings s) =
      ?s2\<lparr>chrome := (chrome ?s2)\<lparr>tab_messages := ms, page_css := css\<rparr>\<rparr>"
    by simp
  then show ?thesis by simp
qed

text \<open>
  Claim C6 does not hold for the code. An \<^verbatim>\<open>updateSettings\<close> request whose write
  fails is still answered with \<^verbatim>\<open>success: true\<close> and no error, while the storage
  keeps what it had and the in-memory copy already holds the merged record.
\<close>

theorem update_reports_success_when_write_fails:
  "fst (handleMessage (UpdateSettings (as_partial sample_settings))
          (service_with DEFAULT_SETTINGS\<lparr>chrome := browser_failing [Some other_error]\<rparr>)) =
     \<lparr>success = True, data = None, error = None\<rparr> \<and>
   sync_settings (chrome (snd (handleMessage (UpdateSettings (as_partial sample_settings))
          (service_with DEFAULT_SETTINGS\<lparr>chrome := browser_failing [Some other_error]\<rparr>)))) = None \<and>
   this_settings (snd (handleMessage (UpdateSettings (as_partial sample_settings))
          (service_with DEFAULT_SETTINGS\<lparr>chrome := browser_failing [Some other_error]\<rparr>))) =
     sample_settings"
proof -
  let ?s = "service_with DEFAULT_SETTINGS\<lparr>chrome := browser_failing [Some other_error]\<rparr>"
  let ?n = "as_partial sample_settings"
  have sp: "spread (this_settings ?s) ?n = sample_settings"
    by (rule spread_full) (simp add: sample_settings_def)
  have h: "snd (handleMessage (UpdateSettings ?n) ?s) = snd (updateSettings ?n ?s)"
    by (simp add: handleMessage_def split: prod.splits)
  have "sync_settings (chrome (snd (setSettings sample_settings
           (?s\<lparr>this_settings := sample_settings\<rparr>)))) = None"
    by (simp add: setSettings_def storage_sync_set_def sync_outcome_def sync_called_def
        browser_failing_def sample_browser_def other_error_def)
  with updateSettings_storage [of ?n ?s] sp h
  have "sync_settings (chrome (snd (handleMessage (UpdateSettings ?n) ?s))) = None"
    by simp
  moreover from updateSettings_frame [of ?n ?s] sp h
  have "this_settings (snd (handleMessage (UpdateSettings ?n) ?s)) = sample_settings"
    by simp
  ultimately show ?thesis using update_always_reports_success [of ?n ?s] by simp
qed

lemma example_eligible:
  "url_truthy (tab_url \<lparr>tab_id = 1, tab_url = Some ''https://example.com/page''\<rparr>) \<and>
   shouldInjectOnSite sample_browser
     (tab_url \<lparr>tab_id = 1, tab_url = Some ''https://example.com/page''\<rparr>)"
  by (simp add: url_truthy_def shouldInjectOnSite_def construct_URL_def sample_browser_def
      sample_URL_def)

text \<open>
  Claim C2 does not hold for the code. Two injections into the same tab leave two style
  sheets in the page, and an injection followed by a reset leaves the generated sheet
  in front of the reset sheet: \<^verbatim>\<open>insertCSS\<close> only adds, and nothing removes.
\<close>

theorem repeated_injection_accumulates:
  "page_css (chrome (injectCSS 1 (injectCSS 1 (service_with DEFAULT_SETTINGS)))) 1 =
     [generateCSS ''#551a8b'', generateCSS ''#551a8b''] \<and>
   page_css (chrome (injectCSS 1
       ((injectCSS 1 (service_with DEFAULT_SETTINGS))
          \<lparr>this_settings := DEFAULT_SETTINGS\<lparr>enabled := False\<rparr>\<rparr>))) 1 =
     [generateCSS ''#551a8b'', resetCSS]"
proof -
  let ?s0 = "service_with DEFAULT_SETTINGS"
  let ?T = "\<lparr>tab_id = 1, tab_url = Some ''https://example.com/page''\<rparr>"
  have e0: "getEffectiveSettings 1 ?s0 = Inr \<lparr>visitedColor = ''#551a8b'', enabled = True\<rparr>"
    using getEffectiveSettings_on_site [OF example_tab example_url, of DEFAULT_SETTINGS]
    by (simp add: resolve_site_def site_override_def service_with_def DEFAULT_SETTINGS_def)
  have c0: "chrome ?s0 = sample_browser" by (simp add: service_with_def)
  have s1: "injectCSS 1 ?s0 =
      \<lparr>this_settings = DEFAULT_SETTINGS,
       chrome = sample_browser\<lparr>page_css := (\<lambda>_. [])(1 := [generateCSS ''#551a8b''])\<rparr>\<rparr>"
    using example_tab [of DEFAULT_SETTINGS] example_eligible e0
    by (simp add: injectCSS_def scripting_insertCSS_def c0)
      (simp add: service_with_def sample_browser_def)
  let ?b1 = "sample_browser\<lparr>page_css := (\<lambda>_. [])(1 := [generateCSS ''#551a8b''])\<rparr>"
  have t1: "tabs_get ?b1 1 = Inr ?T"
    by (simp add: tabs_get_def sample_browser_def)
  have u1: "construct_URL ?b1 (tab_url ?T) = Inr \<lparr>protocol = ''https:'', hostname = ''example.com''\<rparr>"
    by (simp add: construct_URL_def sample_browser_def sample_URL_def)
  have g1: "shouldInjectOnSite ?b1 (tab_url ?T)" "url_truthy (tab_url ?T)"
    by (simp_all add: url_truthy_def shouldInjectOnSite_def construct_URL_def sample_browser_def
      sample_URL_def)
  have sc: "scriptable ?b1 1" by (simp add: sample_browser_def)
  have a: "page_css (chrome (injectCSS 1 (injectCSS 1 ?s0))) 1 =
             [generateCSS ''#551a8b'', generateCSS ''#551a8b'']"
  proof -
    let ?s1 = "\<lparr>this_settings = DEFAULT_SETTINGS, chrome = ?b1\<rparr>"
    have "getEffectiveSettings 1 ?s1 = Inr \<lparr>visitedColor = ''#551a8b'', enabled = True\<rparr>"
      using getEffectiveSettings_on_site [of ?s1 1 ?T] t1 u1
      by (simp add: resolve_site_def site_override_def DEFAULT_SETTINGS_def)
    with injectCSS_appends [of ?s1 1 ?T] t1 g1 sc show ?thesis by (simp add: s1 del: One_nat_def)
  qed
  have b: "page_css (chrome (injectCSS 1
       ((injectCSS 1 ?s0)\<lparr>this_settings := DEFAULT_SETTINGS\<lparr>enabled := False\<rparr>\<rparr>))) 1 =
     [generateCSS ''#551a8b'', resetCSS]"
  proof -
    let ?s1 = "\<lparr>this_settings = DEFAULT_SETTINGS\<lparr>enabled := False\<rparr>, chrome = ?b1\<rparr>"
    have "getEffectiveSettings 1 ?s1 = Inr \<lparr>visitedColor = ''#551a8b'', enabled = False\<rparr>"
      using getEffectiveSettings_on_site [of ?s1 1 ?T] t1 u1
      by (simp add: resolve_site_def site_override_def DEFAULT_SETTINGS_def)
    with injectCSS_appends [of ?s1 1 ?T] t1 g1 sc show ?thesis by (simp add: s1 del: One_nat_def)
  qed
  from a b show ?thesis by simp
qed

end
